theory Spec2Isabelle
  imports Main "HOL-Library.AList"
begin

section \<open>JavaScript values\<close>

text \<open>
  The values that flow through \<^verbatim>\<open>lib/adclient.js\<close>: callback arguments, configuration
  parameters and directory entries. An object is an association list from property names
  to values; \<open>JError\<close> is an \<^verbatim>\<open>Error\<close> object as the directory client passes it to a
  callback, and \<open>JBuiltin name\<close> is the value that \<^verbatim>\<open>Object.prototype\<close> holds under that
  name. A string is the UTF-8 encoding of the JavaScript string: an ASCII character is
  one \<open>char\<close>, and any other character is several, none of them ASCII.
\<close>

datatype jsval =
    JUndefined
  | JNull
  | JBool bool
  | JNum int
  | JNaN
  | JStr string
  | JError string
  | JBuiltin string
  | JArr "jsval list"
  | JObj "(string \<times> jsval) list"

type_synonym obj = "(string \<times> jsval) list"

text \<open>Truthiness, as \<^verbatim>\<open>if (err)\<close> and \<^verbatim>\<open>_.compact\<close> test it.\<close>

fun truthy :: "jsval \<Rightarrow> bool" where
  "truthy JUndefined = False"
| "truthy JNull = False"
| "truthy (JBool b) = b"
| "truthy (JNum n) = (n \<noteq> 0)"
| "truthy JNaN = False"
| "truthy (JStr s) = (s \<noteq> [])"
| "truthy (JError m) = True"
| "truthy (JBuiltin name) = True"
| "truthy (JArr xs) = True"
| "truthy (JObj kvs) = True"

text \<open>\<^verbatim>\<open>xs[i]\<close> on an array: \<^verbatim>\<open>undefined\<close> out of range.\<close>

definition js_nth :: "jsval list \<Rightarrow> nat \<Rightarrow> jsval" where
  "js_nth xs i = (if i < length xs then xs ! i else JUndefined)"

text \<open>
  The names of the properties that a plain object inherits from \<^verbatim>\<open>Object.prototype\<close>.
\<close>

definition object_prototype :: "string list" where
  "object_prototype =
     [''constructor'', ''toString'', ''toLocaleString'', ''valueOf'', ''hasOwnProperty'',
      ''isPrototypeOf'', ''propertyIsEnumerable'', ''__defineGetter__'', ''__defineSetter__'',
      ''__lookupGetter__'', ''__lookupSetter__'', ''__proto__'']"

text \<open>\<^verbatim>\<open>key in object\<close> on a plain object: an own or an inherited property.\<close>

definition js_in :: "obj \<Rightarrow> string \<Rightarrow> bool" where
  "js_in object key \<longleftrightarrow> map_of object key \<noteq> None \<or> key \<in> set object_prototype"

text \<open>
  \<^verbatim>\<open>o[key]\<close> on a value: the own property, else the inherited one, else \<^verbatim>\<open>undefined\<close>.
  The source reads properties of objects only.
\<close>

fun js_get :: "jsval \<Rightarrow> string \<Rightarrow> jsval" where
  "js_get (JObj kvs) key =
     (case map_of kvs key of
        Some v \<Rightarrow> v
      | None \<Rightarrow> if key \<in> set object_prototype then JBuiltin key else JUndefined)"
| "js_get v key = JUndefined"

text \<open>
  \<^verbatim>\<open>result[key] = v\<close> on a plain object. \<^verbatim>\<open>__proto__\<close> is an accessor of
  \<^verbatim>\<open>Object.prototype\<close>: assigning to it creates no property.
\<close>

definition js_set :: "obj \<Rightarrow> string \<Rightarrow> jsval \<Rightarrow> obj" where
  "js_set object key v = (if key = ''__proto__'' then object else AList.update key v object)"

text \<open>\<^verbatim>\<open>_.compact(array)\<close>: removes false, null, 0, "", undefined and NaN.\<close>

definition compact :: "jsval list \<Rightarrow> jsval list" where
  "compact xs = filter truthy xs"

subsection \<open>Strings\<close>

definition is_upper :: "char \<Rightarrow> bool" where
  "is_upper c = (c \<in> set ''ABCDEFGHIJKLMNOPQRSTUVWXYZ'')"

definition lower_char :: "char \<Rightarrow> char" where
  "lower_char c =
     (case map_of (zip ''ABCDEFGHIJKLMNOPQRSTUVWXYZ'' ''abcdefghijklmnopqrstuvwxyz'') c of
        Some l \<Rightarrow> l
      | None \<Rightarrow> c)"

definition is_ascii :: "char \<Rightarrow> bool" where
  "is_ascii c = (\<not> digit7 c)"

text \<open>
  What the Unicode data of the runtime decide: the result of \<^verbatim>\<open>toLowerCase\<close>, and of the
  test \<^verbatim>\<open>/^\s*$/\<close>, on a string that is not all ASCII.
\<close>

record unicode_tables =
  unicode_toLowerCase :: "string \<Rightarrow> string"
  unicode_isBlank :: "string \<Rightarrow> bool"

text \<open>
  \<^verbatim>\<open>s.toLowerCase()\<close>: on an ASCII string the letters A to Z are replaced; on any other
  string the result is that of the Unicode case mapping.
\<close>

definition toLowerCase :: "unicode_tables \<Rightarrow> string \<Rightarrow> string" where
  "toLowerCase u s = (if list_all is_ascii s then map lower_char s else unicode_toLowerCase u s)"

text \<open>
  The characters the regular expression class \<^verbatim>\<open>\s\<close> matches, among ASCII: tab, line
  feed, vertical tab, form feed, carriage return and space.
\<close>

definition is_space :: "char \<Rightarrow> bool" where
  "is_space c = (c \<in> set [CHR 0x09, CHR 0x0A, CHR 0x0B, CHR 0x0C, CHR 0x0D, CHR '' ''])"

text \<open>\<^verbatim>\<open>_.isBlank(str)\<close> of underscore.string: \<^verbatim>\<open>/^\s*$/.test(str)\<close>.\<close>

definition isBlank :: "unicode_tables \<Rightarrow> string \<Rightarrow> bool" where
  "isBlank u s = (if list_all is_ascii s then list_all is_space s else unicode_isBlank u s)"

text \<open>\<^verbatim>\<open>s.split(sep)\<close> for a one-character separator; \<^verbatim>\<open>"".split(",")\<close> is \<^verbatim>\<open>[""]\<close>.\<close>

fun split :: "char \<Rightarrow> string \<Rightarrow> string list" where
  "split sep [] = [[]]"
| "split sep (c # cs) =
     (if c = sep then [] # split sep cs
      else (case split sep cs of
              [] \<Rightarrow> [[c]]
            | w # ws \<Rightarrow> (c # w) # ws))"

text \<open>
  \<^verbatim>\<open>_.ltrim(str, characters)\<close> and \<^verbatim>\<open>_.trim(str, characters)\<close> of underscore.string build
  the character class \<^verbatim>\<open>[characters]\<close> and delete the longest run of characters of that
  class at the left end (and, for trim, at the right end too):
  \<^verbatim>\<open>str.replace(new RegExp('^[' + characters + ']+'), '')\<close>.
\<close>

definition ltrim :: "string \<Rightarrow> string \<Rightarrow> string" where
  "ltrim str characters = dropWhile (\<lambda>c. c \<in> set characters) str"

definition rtrim :: "string \<Rightarrow> string \<Rightarrow> string" where
  "rtrim str characters = rev (dropWhile (\<lambda>c. c \<in> set characters) (rev str))"

definition trim :: "string \<Rightarrow> string \<Rightarrow> string" where
  "trim str characters = rtrim (ltrim str characters) characters"

text \<open>
  \<^verbatim>\<open>_.words(str, delimiter)\<close> of underscore.string:
  \<^verbatim>\<open>if (isBlank(str)) return []; return trim(str, delimiter).split(delimiter)\<close>.
\<close>

definition words :: "unicode_tables \<Rightarrow> string \<Rightarrow> char \<Rightarrow> string list" where
  "words u str delimiter =
     (if isBlank u str then [] else split delimiter (trim str [delimiter]))"

text \<open>\<^verbatim>\<open>_.startsWith(str, starts)\<close> of underscore.string.\<close>

definition startsWith :: "string \<Rightarrow> string \<Rightarrow> bool" where
  "startsWith str starts = (length starts \<le> length str \<and> take (length starts) str = starts)"

section \<open>The DN token extractor\<close>

text \<open>
  \<^verbatim>\<open>extractCNFromDN(dn, callback)\<close> (lines 107-117) does nothing but call its callback,
  synchronously, so it is the list of the argument pairs \<open>(err, value)\<close> it passes, in
  order. \<open>None\<close> is the TypeError of \<^verbatim>\<open>dn.toLowerCase()\<close> on a value that is neither
  \<^verbatim>\<open>undefined\<close> nor a string.
\<close>

definition extractCNFromDN :: "unicode_tables \<Rightarrow> jsval \<Rightarrow> (jsval \<times> jsval) list option" where
  "extractCNFromDN u dn =
     (case dn of
        JUndefined \<Rightarrow> Some [(JStr ''No DN given'', JUndefined)]
      | JStr s \<Rightarrow>
          Some (concat (map (\<lambda>dndata.
                  if startsWith dndata ''cn=''
                  then [(JNull, JStr (ltrim dndata ''cn=''))]
                  else [])
                (words u (toLowerCase u s) CHR '','')))
      | _ \<Rightarrow> None)"

text \<open>
  \<^verbatim>\<open>_.pick(object, props)\<close>: for each name of the list in turn,
  \<^verbatim>\<open>if (key in object) result[key] = object[key]\<close>.
\<close>

definition pick :: "obj \<Rightarrow> string list \<Rightarrow> obj" where
  "pick object props =
     fold (\<lambda>key result. if js_in object key
                         then js_set result key (js_get (JObj object) key)
                         else result)
          props []"

text \<open>
  \<^verbatim>\<open>_.where(collection, {key: value})\<close> for a primitive value: the elements whose property
  is strictly equal to it; the empty array when the collection is \<^verbatim>\<open>undefined\<close>.
\<close>

fun where_eq :: "jsval \<Rightarrow> string \<Rightarrow> jsval \<Rightarrow> jsval list" where
  "where_eq (JArr xs) key v = filter (\<lambda>x. js_get x key = v) xs"
| "where_eq collection key v = []"

text \<open>The elements \<^verbatim>\<open>_.each(collection, f)\<close> visits, in order.\<close>

fun elements :: "jsval \<Rightarrow> jsval list" where
  "elements (JArr xs) = xs"
| "elements (JObj kvs) = map snd kvs"
| "elements v = []"

text \<open>\<^verbatim>\<open>'' + n\<close> for an integer \<open>n\<close>.\<close>

fun digits :: "nat \<Rightarrow> string" where
  "digits n =
     (if n < 10 then [''0123456789'' ! n]
      else digits (n div 10) @ [''0123456789'' ! (n mod 10)])"

definition number_toString :: "int \<Rightarrow> string" where
  "number_toString i = (if i < 0 then CHR ''-'' # digits (nat (- i)) else digits (nat i))"

section \<open>The client object, the directory and the observed events\<close>

datatype session = Master | User

text \<open>
  \<^verbatim>\<open>masterClient\<close> and \<^verbatim>\<open>userClient\<close> hold \<^verbatim>\<open>false\<close> (\<open>NoClient\<close>) or the object that
  \<^verbatim>\<open>ldapjs.createClient({'url': url})\<close> returned.
\<close>

datatype handle = NoClient | Client jsval

record params =
  url :: jsval
  groupSearchFilter :: string
  groupSearchAttributes :: jsval
  groupSearchDN :: string
  masterDn :: string
  masterPw :: string
  userSearchFilter :: string
  userSearchAttributes :: "string list"

text \<open>
  What an observer of one run sees, in order: the requests made to the directory client,
  the entries into \<^verbatim>\<open>close\<close>, the calls of the callback that the caller of the public
  operation supplied, and an uncaught TypeError.
\<close>

datatype event =
    CreateClient session jsval
  | Bind session jsval jsval
  | Search session jsval
  | Unbind session
  | Close
  | Callback jsval jsval
  | TypeError

text \<open>
  The fields of the object (lines 42-48), with the events observed so far and whether an
  exception has been thrown and not caught.
\<close>

record client =
  params :: params
  masterClient :: handle
  masterBound :: bool
  userClient :: handle
  userBound :: bool
  trace :: "event list"
  thrown :: bool

definition adClient :: "params \<Rightarrow> client" where
  "adClient p =
     \<lparr> params = p, masterClient = NoClient, masterBound = False,
       userClient = NoClient, userBound = False, trace = [], thrown = False \<rparr>"

text \<open>
  The search result emitter of ldapjs: the entries of its \<^verbatim>\<open>searchEntry\<close> events, then
  either an \<^verbatim>\<open>error\<close> event or the \<^verbatim>\<open>end\<close> event with its status. \<open>SearchFailed\<close> is
  a search whose callback receives an error and no emitter.
\<close>

datatype terminal = StreamError jsval | StreamEnd int

datatype search_response = SearchFailed jsval | SearchStream "obj list" terminal

text \<open>
  The collaborators outside the file, as the answers they give: the Unicode data of the
  runtime, \<^verbatim>\<open>_.random(lo, hi)\<close>, whether \<^verbatim>\<open>ldapjs.createClient\<close> returns a client for
  a url (it throws otherwise), the
  \<open>(err, result)\<close> a bind and an unbind pass to their callback, and the answer to a search.
\<close>

record directory =
  tables :: unicode_tables
  lodash_random :: "nat \<Rightarrow> nat \<Rightarrow> nat"
  ldap_createClient :: "jsval \<Rightarrow> bool"
  ldap_bind :: "session \<Rightarrow> jsval \<Rightarrow> jsval \<Rightarrow> jsval \<times> jsval"
  ldap_search :: "session \<Rightarrow> jsval \<Rightarrow> search_response"
  ldap_unbind :: "session \<Rightarrow> jsval \<times> jsval"

type_synonym proc = "client \<Rightarrow> client"

type_synonym callback = "jsval \<Rightarrow> jsval \<Rightarrow> proc"

text \<open>Statement sequencing: what follows a statement that threw is not run.\<close>

definition seq :: "proc \<Rightarrow> proc \<Rightarrow> proc" where
  "seq f g self = (let self' = f self in if thrown self' then self' else g self')"

text \<open>\<^verbatim>\<open>if (b) {f}\<close> with no else branch.\<close>

definition if_do :: "bool \<Rightarrow> proc \<Rightarrow> proc" where
  "if_do b f self = (if b then f self else self)"

definition emit :: "event \<Rightarrow> proc" where
  "emit e self = self\<lparr>trace := trace self @ [e]\<rparr>"

definition throw :: proc where
  "throw self = self\<lparr>trace := trace self @ [TypeError], thrown := True\<rparr>"

text \<open>The callback of the caller: its calls are observed.\<close>

definition report :: callback where
  "report err result = emit (Callback err result)"

subsection \<open>Requests to the directory client\<close>

text \<open>
  A method call on \<^verbatim>\<open>self.masterClient\<close> or \<^verbatim>\<open>self.userClient\<close> is a TypeError while the
  field still holds \<^verbatim>\<open>false\<close>. Each request is answered once, and its callback runs when
  the answer arrives.
\<close>

definition client_create :: "directory \<Rightarrow> session \<Rightarrow> jsval \<Rightarrow> proc" where
  "client_create d s u =
     seq (emit (CreateClient s u))
         (\<lambda>self. if ldap_createClient d u
                  then (case s of
                          Master \<Rightarrow> self\<lparr>masterClient := Client u\<rparr>
                        | User \<Rightarrow> self\<lparr>userClient := Client u\<rparr>)
                  else throw self)"

definition client_bind ::
  "directory \<Rightarrow> session \<Rightarrow> handle \<Rightarrow> jsval \<Rightarrow> jsval \<Rightarrow> callback \<Rightarrow> proc" where
  "client_bind d s h dn pw callback =
     (case h of
        NoClient \<Rightarrow> throw
      | Client u \<Rightarrow>
          seq (emit (Bind s dn pw))
              (callback (fst (ldap_bind d s dn pw)) (snd (ldap_bind d s dn pw))))"

definition client_search ::
  "directory \<Rightarrow> session \<Rightarrow> handle \<Rightarrow> jsval \<Rightarrow> (search_response \<Rightarrow> proc) \<Rightarrow> proc" where
  "client_search d s h base k =
     (case h of
        NoClient \<Rightarrow> throw
      | Client u \<Rightarrow> seq (emit (Search s base)) (k (ldap_search d s base)))"

definition client_unbind :: "directory \<Rightarrow> session \<Rightarrow> handle \<Rightarrow> callback \<Rightarrow> proc" where
  "client_unbind d s h callback =
     (case h of
        NoClient \<Rightarrow> throw
      | Client u \<Rightarrow>
          seq (emit (Unbind s))
              (callback (fst (ldap_unbind d s)) (snd (ldap_unbind d s))))"

section \<open>The operations of the client\<close>

text \<open>
  Each operation takes its callback as an argument, as in the source. A one-argument call
  \<^verbatim>\<open>callback(err)\<close> passes \<^verbatim>\<open>undefined\<close> as the second argument, and \<^verbatim>\<open>callback()\<close>
  passes it as both.
\<close>

text \<open>\<^verbatim>\<open>getUrl\<close>, lines 67-80.\<close>

definition getUrl :: "directory \<Rightarrow> jsval \<Rightarrow> callback \<Rightarrow> proc" where
  "getUrl d paramUrl callback =
     (case paramUrl of
        JArr xs \<Rightarrow>
          (let paramUrl' = compact xs
           in callback JNull (js_nth paramUrl' (lodash_random d 0 (length paramUrl'))))
      | JStr s \<Rightarrow> callback JNull (JStr s)
      | _ \<Rightarrow> callback (JStr ''No valid url given'') JUndefined)"

text \<open>\<^verbatim>\<open>createClients\<close>, lines 50-65.\<close>

definition createClients :: "directory \<Rightarrow> callback \<Rightarrow> proc" where
  "createClients d callback self =
     getUrl d (url (params self))
       (\<lambda>err u.
          if \<not> truthy err then
            seq (\<lambda>self. if_do (masterClient self = NoClient) (client_create d Master u) self)
           (seq (\<lambda>self. if_do (userClient self = NoClient) (client_create d User u) self)
                (callback JUndefined JUndefined))
          else callback err JUndefined)
       self"

text \<open>\<^verbatim>\<open>bindMaster\<close>, lines 82-92.\<close>

definition bindMaster :: "directory \<Rightarrow> callback \<Rightarrow> proc" where
  "bindMaster d callback =
     createClients d
       (\<lambda>err _.
          seq (if_do (truthy err) (callback err JUndefined))
              (\<lambda>self. if masterBound self then callback JUndefined JUndefined self
                       else client_bind d Master (masterClient self)
                              (JStr (masterDn (params self))) (JStr (masterPw (params self)))
                              callback self))"

text \<open>
  \<^verbatim>\<open>close\<close>, lines 95-105. The unbind of line 98 is answered after the function has
  returned, so the \<^verbatim>\<open>callback()\<close> of line 104 runs before the callback of the unbind.
\<close>

definition close :: "directory \<Rightarrow> callback \<Rightarrow> proc" where
  "close d callback =
     seq (emit Close)
         (\<lambda>self. if masterBound self then
                    (case masterClient self of
                       NoClient \<Rightarrow> throw self
                     | Client u \<Rightarrow>
                         seq (emit (Unbind Master))
                        (seq (callback JUndefined JUndefined)
                        (seq (\<lambda>self. self\<lparr>masterBound := False\<rparr>)
                             (callback (fst (ldap_unbind d Master)) (snd (ldap_unbind d Master)))))
                         self)
                  else callback JUndefined JUndefined self)"

text \<open>
  Lines 148-162 of \<^verbatim>\<open>getMembersOfGroupDN\<close>: the member objects pushed for the single
  group entry. \<open>None\<close> is the TypeError of \<^verbatim>\<open>extractCNFromDN\<close>.
\<close>

definition push_member :: "unicode_tables \<Rightarrow> jsval \<Rightarrow> jsval list option" where
  "push_member u v =
     map_option (map (\<lambda>(err, valuedata). JObj [(''cn'', valuedata), (''dn'', v)]))
                (extractCNFromDN u v)"

fun each_member :: "unicode_tables \<Rightarrow> jsval list \<Rightarrow> jsval list option" where
  "each_member u [] = Some []"
| "each_member u (v # vs) =
     (case push_member u v of
        None \<Rightarrow> None
      | Some ms \<Rightarrow> (case each_member u vs of None \<Rightarrow> None | Some ms' \<Rightarrow> Some (ms @ ms')))"

definition memberObjects :: "unicode_tables \<Rightarrow> obj \<Rightarrow> jsval list option" where
  "memberObjects u entry =
     (let member = js_get (JObj entry) ''member''
      in if member \<noteq> JUndefined then
           (case member of
              JStr s \<Rightarrow> push_member u member
            | _ \<Rightarrow> each_member u (elements member))
         else Some [])"

text \<open>The handler of the \<^verbatim>\<open>end\<close> event in \<^verbatim>\<open>getMembersOfGroupDN\<close>, lines 140-167.\<close>

definition group_onEnd :: "directory \<Rightarrow> callback \<Rightarrow> obj list \<Rightarrow> int \<Rightarrow> proc" where
  "group_onEnd d callback resultSet status =
     (if status \<noteq> 0
      then callback (JStr (''Status of AD search was'' @ number_toString status)) JUndefined
      else (case resultSet of
              [] \<Rightarrow> callback JUndefined JUndefined
            | [entry] \<Rightarrow>
                (case memberObjects (tables d) entry of
                   None \<Rightarrow> throw
                 | Some ms \<Rightarrow> callback JNull (JArr ms))
            | _ \<Rightarrow> callback (JStr ''Error: unexpected number of matches'') JUndefined))"

text \<open>
  The callback of the search in \<^verbatim>\<open>getMembersOfGroupDN\<close>, lines 128-168. With no emitter,
  \<^verbatim>\<open>searchResult.on\<close> on line 131 is a TypeError.
\<close>

definition group_onSearch :: "directory \<Rightarrow> callback \<Rightarrow> search_response \<Rightarrow> proc" where
  "group_onSearch d callback resp =
     (case resp of
        SearchFailed err \<Rightarrow> seq (if_do (truthy err) (callback err JUndefined)) throw
      | SearchStream resultSet fin \<Rightarrow>
          (case fin of
             StreamError err \<Rightarrow> callback err JUndefined
           | StreamEnd status \<Rightarrow> group_onEnd d callback resultSet status))"

text \<open>\<^verbatim>\<open>getMembersOfGroupDN\<close>, lines 119-170.\<close>

definition getMembersOfGroupDN :: "directory \<Rightarrow> callback \<Rightarrow> proc" where
  "getMembersOfGroupDN d callback =
     bindMaster d
       (\<lambda>err _.
          seq (if_do (truthy err) (callback err JUndefined))
              (\<lambda>self. client_search d Master (masterClient self)
                         (JStr (groupSearchDN (params self)))
                         (group_onSearch d callback) self))"

text \<open>
  The handler of the \<^verbatim>\<open>end\<close> event in \<^verbatim>\<open>authUserDn\<close>, lines 197-213.
\<close>

definition user_onEnd :: "directory \<Rightarrow> callback \<Rightarrow> obj list \<Rightarrow> int \<Rightarrow> proc" where
  "user_onEnd d callback resultSet status =
     (if status \<noteq> 0
      then callback (JStr (''Status of AD search was'' @ number_toString status)) JUndefined
      else (\<lambda>self. client_unbind d User (userClient self)
              (\<lambda>err _.
                 case resultSet of
                   [] \<Rightarrow> callback JUndefined JUndefined
                 | [entry] \<Rightarrow>
                     (\<lambda>self. callback JNull
                                (JObj (pick entry (userSearchAttributes (params self)))) self)
                 | _ \<Rightarrow> callback (JStr ''Error: unexpected number of matches'') JUndefined)
              self))"

text \<open>The callback of the search in \<^verbatim>\<open>authUserDn\<close>, lines 187-214.\<close>

definition user_onSearch :: "directory \<Rightarrow> callback \<Rightarrow> search_response \<Rightarrow> proc" where
  "user_onSearch d callback resp =
     (case resp of
        SearchFailed err \<Rightarrow> seq (if_do (truthy err) (callback err JUndefined)) throw
      | SearchStream resultSet fin \<Rightarrow>
          (case fin of
             StreamError err \<Rightarrow> callback err JUndefined
           | StreamEnd status \<Rightarrow> user_onEnd d callback resultSet status))"

text \<open>\<^verbatim>\<open>authUserDn\<close>, lines 176-217.\<close>

definition authUserDn :: "directory \<Rightarrow> jsval \<Rightarrow> jsval \<Rightarrow> callback \<Rightarrow> proc" where
  "authUserDn d userDn password callback =
     createClients d
       (\<lambda>err _.
          seq (if_do (truthy err) (callback err JUndefined))
              (\<lambda>self. client_bind d User (userClient self) userDn password
                 (\<lambda>err _.
                    seq (if_do (truthy err) (callback err JUndefined))
                        (\<lambda>self. client_search d User (userClient self) userDn
                                   (user_onSearch d callback) self))
                 self))"

text \<open>\<^verbatim>\<open>authUser\<close>, lines 219-237.\<close>

definition authUser :: "directory \<Rightarrow> string \<Rightarrow> string \<Rightarrow> callback \<Rightarrow> proc" where
  "authUser d username password callback =
     getMembersOfGroupDN d
       (\<lambda>err result.
          seq (if_do (truthy err) (callback err JUndefined))
              (let user = where_eq result ''cn'' (JStr username)
               in if js_nth user 0 = JUndefined then
                    close d (\<lambda>err _. callback (JStr ''Error: User not found'') JUndefined)
                  else
                    authUserDn d (js_get (js_nth user 0) ''dn'') (JStr password)
                      (\<lambda>err userObject.
                         close d (\<lambda>err2 _.
                           seq (if_do (truthy err) (callback err userObject))
                               (callback JNull userObject)))))"

section \<open>Observations, runs and fixtures\<close>

text \<open>The argument pairs of the calls of the caller's callback, in order.\<close>

fun callbacks :: "event list \<Rightarrow> (jsval \<times> jsval) list" where
  "callbacks [] = []"
| "callbacks (Callback err result # es) = (err, result) # callbacks es"
| "callbacks (e # es) = callbacks es"

text \<open>
  \<open>connection d self\<close> is the object after \<^verbatim>\<open>createClients\<close>, and \<open>connects d self\<close>
  says that \<^verbatim>\<open>createClients\<close> calls back with no error and nothing throws: the
  configured url is a string or a list, and ldapjs returns a client for the selected url
  where a client is still to be created.
\<close>

definition connection :: "directory \<Rightarrow> proc" where
  "connection d = createClients d (\<lambda>err result self. self)"

definition connects :: "directory \<Rightarrow> client \<Rightarrow> bool" where
  "connects d self \<longleftrightarrow>
     \<not> thrown self \<and> \<not> thrown (createClients d (\<lambda>err result. if_do (truthy err) throw) self)"

text \<open>
  The member objects that a group search which ended with status 0 resolves to: none for
  no entry, those pushed for the entry when there is one. \<open>None\<close> when the resolution
  fails: several entries, or a TypeError.
\<close>

definition resolved_members :: "unicode_tables \<Rightarrow> obj list \<Rightarrow> jsval list option" where
  "resolved_members u resultSet =
     (case resultSet of
        [] \<Rightarrow> Some []
      | [entry] \<Rightarrow> memberObjects u entry
      | _ \<Rightarrow> None)"

text \<open>
  \<open>piece b t\<close>: the string \<open>b\<close> stands in \<open>t\<close> between two ASCII characters or ends of
  \<open>t\<close>. \<open>lower_stable u\<close> is a property of the Unicode case mapping: lowercasing yields
  only characters in lower case, so such a piece of a lowercased string is not changed by
  lowercasing it again.
\<close>

definition piece :: "string \<Rightarrow> string \<Rightarrow> bool" where
  "piece b t \<longleftrightarrow>
     (\<exists>a c. t = a @ b @ c \<and> (a = [] \<or> is_ascii (last a)) \<and> (c = [] \<or> is_ascii (hd c)))"








text \<open>
  A configuration with one endpoint, and a directory holding one group with two members
  and a user entry with three attributes; every bind and unbind succeeds. These hold
  ASCII strings only; the tables of the fixture treat the ASCII characters of any other
  string as those of an ASCII string and leave its other characters alone.
\<close>

definition fixture_params :: params where
  "fixture_params =
     \<lparr> url = JStr ''ldap://dc1'',
       groupSearchFilter = ''(objectclass=*)'',
       groupSearchAttributes = JStr ''member'',
       groupSearchDN = ''CN=app,OU=Groups,DC=x,DC=com'',
       masterDn = ''CN=master,OU=IT,DC=x,DC=com'',
       masterPw = ''secret'',
       userSearchFilter = ''(objectclass=*)'',
       userSearchAttributes = [''cn'', ''mail''] \<rparr>"

definition fixture_group :: obj where
  "fixture_group =
     [(''dn'', JStr ''CN=app,OU=Groups,DC=x,DC=com''),
      (''member'', JArr [JStr ''CN=jdoe,OU=Users,DC=x,DC=com'',
                         JStr ''CN=nancy,OU=Users,DC=x,DC=com''])]"

definition fixture_user :: obj where
  "fixture_user =
     [(''dn'', JStr ''CN=jdoe,OU=Users,DC=x,DC=com''),
      (''cn'', JStr ''jdoe''),
      (''mail'', JStr ''jdoe@x.com''),
      (''sn'', JStr ''Doe'')]"

definition fixture_tables :: unicode_tables where
  "fixture_tables =
     \<lparr> unicode_toLowerCase = map lower_char, unicode_isBlank = list_all is_space \<rparr>"

definition fixture_directory :: directory where
  "fixture_directory =
     \<lparr> tables = fixture_tables,
       lodash_random = (\<lambda>lo hi. lo),
       ldap_createClient = (\<lambda>u. case u of JStr s \<Rightarrow> True | _ \<Rightarrow> False),
       ldap_bind = (\<lambda>s dn pw. (JNull, JUndefined)),
       ldap_search = (\<lambda>s base. case s of
                        Master \<Rightarrow> SearchStream [fixture_group] (StreamEnd 0)
                      | User \<Rightarrow> SearchStream [fixture_user] (StreamEnd 0)),
       ldap_unbind = (\<lambda>s. (JNull, JUndefined)) \<rparr>"

text \<open>
  A runtime whose case mapping knows one letter beyond ASCII, the capital E with acute
  accent (bytes C3 89, in lower case C3 A9), and a directory whose group has the one member
  \<^verbatim>\<open>CN=\<close>E-acute\<^verbatim>\<open>mile,OU=Users,DC=x,DC=com\<close>.
\<close>

fun lower_e_acute :: "string \<Rightarrow> string" where
  "lower_e_acute (c # c' # cs) =
     (if c = CHR 0xC3 \<and> c' = CHR 0x89 then CHR 0xC3 # CHR 0xA9 # lower_e_acute cs
      else lower_char c # lower_e_acute (c' # cs))"
| "lower_e_acute [c] = [lower_char c]"
| "lower_e_acute [] = []"

definition fixture_emile :: directory where
  "fixture_emile =
     fixture_directory
       \<lparr>tables := \<lparr> unicode_toLowerCase = lower_e_acute, unicode_isBlank = (\<lambda>s. False) \<rparr>,
        ldap_search := \<lambda>s base. case s of
            Master \<Rightarrow>
              SearchStream
                [[(''dn'', JStr ''CN=app,OU=Groups,DC=x,DC=com''),
                  (''member'',
                   JStr (''CN='' @ [CHR 0xC3, CHR 0x89] @ ''mile,OU=Users,DC=x,DC=com''))]]
                (StreamEnd 0)
          | User \<Rightarrow> SearchStream [fixture_user] (StreamEnd 0)\<rparr>"

text \<open>The same directory when every search ends with status 0 and no entry.\<close>

definition fixture_no_entries :: directory where
  "fixture_no_entries =
     fixture_directory\<lparr>ldap_search := \<lambda>s base. SearchStream [] (StreamEnd 0)\<rparr>"

text \<open>
  The same directory when it refuses the master credential and then answers the group
  search with an error event.
\<close>

definition fixture_master_refused :: directory where
  "fixture_master_refused =
     fixture_directory
       \<lparr>ldap_bind := \<lambda>s dn pw. (JError ''InvalidCredentialsError'', JUndefined),
        ldap_search := \<lambda>s base. SearchStream [] (StreamError (JError ''OperationsError''))\<rparr>"

section \<open>Basic facts\<close>

lemmas js_string_defs =
  words_def isBlank_def is_space_def is_ascii_def trim_def ltrim_def rtrim_def toLowerCase_def
  lower_char_def startsWith_def

lemma seq_apply: "seq f g self = (if thrown (f self) then f self else g (f self))"
  by (simp add: seq_def Let_def)

lemma emit_simps [simp]:
  "thrown (emit e self) = thrown self"
  "masterBound (emit e self) = masterBound self"
  "userBound (emit e self) = userBound self"
  "masterClient (emit e self) = masterClient self"
  "userClient (emit e self) = userClient self"
  "params (emit e self) = params self"
  "trace (emit e self) = trace self @ [e]"
  by (simp_all add: emit_def)

lemma getUrl_cases:
  "(\<exists>u. \<forall>k. getUrl d paramUrl k = k JNull u)
   \<or> (\<forall>k. getUrl d paramUrl k = k (JStr ''No valid url given'') JUndefined)"
  by (cases paramUrl; simp add: getUrl_def Let_def;
      (rule disjI1, rule exI, rule allI, rule refl)?)

lemma client_create_ok:
  assumes "\<not> thrown (client_create d s u self)"
  shows "client_create d s u self =
           (case s of
              Master \<Rightarrow> self\<lparr>trace := trace self @ [CreateClient s u], masterClient := Client u\<rparr>
            | User \<Rightarrow> self\<lparr>trace := trace self @ [CreateClient s u], userClient := Client u\<rparr>)"
    and "\<not> thrown self"
  using assms
  by (auto simp: client_create_def seq_apply emit_def throw_def split: session.splits if_splits)

subsection \<open>The operations on an object that connects\<close>

lemma createClients_connects:
  assumes "connects d self"
  shows "createClients d k self = k JUndefined JUndefined (connection d self)"
    and "\<not> thrown (connection d self)"
    and "masterClient (connection d self) \<noteq> NoClient"
    and "userClient (connection d self) \<noteq> NoClient"
    and "masterBound (connection d self) = masterBound self"
    and "userBound (connection d self) = userBound self"
    and "params (connection d self) = params self"
    and "\<exists>created. trace (connection d self) = trace self @ created
           \<and> set created \<subseteq> range (CreateClient Master) \<union> range (CreateClient User)"
proof -
  from getUrl_cases [of d "url (params self)"]
  obtain u where u: "\<And>k. getUrl d (url (params self)) k = k JNull u"
  proof
    assume "\<forall>k. getUrl d (url (params self)) k = k (JStr ''No valid url given'') JUndefined"
    with assms have False
      by (simp add: connects_def createClients_def if_do_def throw_def)
    then show thesis ..
  qed blast
  define A where "A = (\<lambda>self. if_do (masterClient self = NoClient) (client_create d Master u) self)"
  define B where "B = (\<lambda>self. if_do (userClient self = NoClient) (client_create d User u) self)"
  have cc: "createClients d k' self = seq A (seq B (k' JUndefined JUndefined)) self" for k'
    by (simp add: createClients_def u A_def B_def)
  have nt: "\<not> thrown (A self)" "\<not> thrown (B (A self))"
    using assms by (auto simp: connects_def cc seq_apply if_do_def split: if_splits)
  have con: "connection d self = B (A self)"
    using nt by (simp add: connection_def cc seq_apply)
  have A: "masterClient (A self) \<noteq> NoClient" "masterBound (A self) = masterBound self"
     "userBound (A self) = userBound self" "params (A self) = params self"
     "trace (A self) =
        trace self @ (if masterClient self = NoClient then [CreateClient Master u] else [])"
    using nt(1) client_create_ok(1) [of d Master u self]
    by (auto simp: A_def if_do_def split: if_splits)
  have B: "masterClient (B (A self)) = masterClient (A self)"
     "userClient (B (A self)) \<noteq> NoClient" "masterBound (B (A self)) = masterBound (A self)"
     "userBound (B (A self)) = userBound (A self)" "params (B (A self)) = params (A self)"
     "trace (B (A self)) =
        trace (A self) @ (if userClient (A self) = NoClient then [CreateClient User u] else [])"
    using nt(2) client_create_ok(1) [of d User u "A self"]
    by (auto simp: B_def if_do_def split: if_splits)
  show "createClients d k self = k JUndefined JUndefined (connection d self)"
    using nt by (simp add: cc con seq_apply)
  show "\<not> thrown (connection d self)" using nt by (simp add: con)
  show "masterClient (connection d self) \<noteq> NoClient" using A B by (simp add: con)
  show "userClient (connection d self) \<noteq> NoClient" using A B by (simp add: con)
  show "masterBound (connection d self) = masterBound self" using A B by (simp add: con)
  show "userBound (connection d self) = userBound self" using A B by (simp add: con)
  show "params (connection d self) = params self" using A B by (simp add: con)
  show "\<exists>created. trace (connection d self) = trace self @ created
          \<and> set created \<subseteq> range (CreateClient Master) \<union> range (CreateClient User)"
    using A(5) B(6) by (auto simp: con)
qed

lemma bindMaster_connects:
  assumes "connects d self" and "\<not> masterBound self"
  shows "bindMaster d k self =
           k (fst (ldap_bind d Master (JStr (masterDn (params self))) (JStr (masterPw (params self)))))
             (snd (ldap_bind d Master (JStr (masterDn (params self))) (JStr (masterPw (params self)))))
             (emit (Bind Master (JStr (masterDn (params self))) (JStr (masterPw (params self))))
                (connection d self))"
proof -
  obtain u where "masterClient (connection d self) = Client u"
    using createClients_connects(3) [OF assms(1)] by (cases "masterClient (connection d self)") auto
  then show ?thesis
    using createClients_connects [OF assms(1)] assms(2)
    by (simp add: bindMaster_def client_bind_def seq_apply if_do_def)
qed

lemma getMembersOfGroupDN_report:
  assumes "connects d self" and "\<not> masterBound self"
  shows "getMembersOfGroupDN d report self =
           group_onSearch d report (ldap_search d Master (JStr (groupSearchDN (params self))))
             (emit (Search Master (JStr (groupSearchDN (params self))))
                (if_do (truthy (fst (ldap_bind d Master (JStr (masterDn (params self)))
                                       (JStr (masterPw (params self))))))
                   (report (fst (ldap_bind d Master (JStr (masterDn (params self)))
                                   (JStr (masterPw (params self))))) JUndefined)
                   (emit (Bind Master (JStr (masterDn (params self))) (JStr (masterPw (params self))))
                      (connection d self))))"
proof -
  obtain u where "masterClient (connection d self) = Client u"
    using createClients_connects(3) [OF assms(1)] by (cases "masterClient (connection d self)") auto
  then show ?thesis
    using createClients_connects [OF assms(1)] assms(2)
    by (simp add: getMembersOfGroupDN_def bindMaster_connects [OF assms] client_search_def
        seq_apply if_do_def report_def)
qed

lemma getMembersOfGroupDN_bound:
  assumes "connects d self" and "\<not> masterBound self"
    and "\<not> truthy (fst (ldap_bind d Master (JStr (masterDn (params self)))
                           (JStr (masterPw (params self)))))"
  shows "getMembersOfGroupDN d k self =
           group_onSearch d k (ldap_search d Master (JStr (groupSearchDN (params self))))
             (emit (Search Master (JStr (groupSearchDN (params self))))
                (emit (Bind Master (JStr (masterDn (params self))) (JStr (masterPw (params self))))
                   (connection d self)))"
proof -
  obtain u where "masterClient (connection d self) = Client u"
    using createClients_connects(3) [OF assms(1)] by (cases "masterClient (connection d self)") auto
  then show ?thesis
    using createClients_connects [OF assms(1)] assms(2,3)
    by (simp add: getMembersOfGroupDN_def bindMaster_connects [OF assms(1,2)] client_search_def
        seq_apply if_do_def)
qed


section \<open>Endpoint selection\<close>

text \<open>
  C2 (endpoint selection from a list fails when nothing is left after dropping the falsy
  entries, and otherwise returns a member of the compacted list for every random draw).
  The code asks \<^verbatim>\<open>_.random(0, paramUrl.length)\<close>, whose upper bound is inclusive, and has
  no test for an empty list. With only falsy entries it calls back with no error and the
  url \<^verbatim>\<open>undefined\<close>; with one entry and the draw 1 it does the same.
\<close>

theorem getUrl_list_selection_defect:
  "trace (getUrl d (JArr [JStr '''', JNull]) report (adClient p)) = [Callback JNull JUndefined]
   \<and> trace (getUrl (d\<lparr>lodash_random := \<lambda>lo hi. hi\<rparr>) (JArr [JStr ''ldap://dc1'']) report
               (adClient p)) = [Callback JNull JUndefined]"
  by (simp add: getUrl_def compact_def js_nth_def report_def emit_def adClient_def)

section \<open>The token of a DN\<close>

lemma extractCNFromDN_jdoe:
  "extractCNFromDN u (JStr ''CN=jdoe,OU=Users,DC=x,DC=com'') = Some [(JNull, JStr ''jdoe'')]"
  by (simp add: extractCNFromDN_def js_string_defs)

text \<open>
  C3 (the token is the remainder of the \<^verbatim>\<open>cn=\<close> component after that prefix, lowercased).
  \<^verbatim>\<open>_.ltrim(dndata, 'cn=')\<close> removes the leading run of the characters c, n and =, so a
  name that starts with one of them loses its first letters: the token of
  \<^verbatim>\<open>CN=nancy,OU=Users,DC=x,DC=com\<close> is \<^verbatim>\<open>ancy\<close>.
\<close>

theorem extractCNFromDN_strips_leading_letters:
  "extractCNFromDN u (JStr ''CN=nancy,OU=Users,DC=x,DC=com'') = Some [(JNull, JStr ''ancy'')]"
  by (simp add: extractCNFromDN_def js_string_defs)

text \<open>
  C4, as stated (an absent or empty dn fails with the missing-DN error), fails at the empty
  string: the callback is not called at all.
\<close>

theorem extractCNFromDN_empty_counterexample:
  "extractCNFromDN fixture_tables (JStr '''') \<noteq> Some [(JStr ''No DN given'', JUndefined)]"
  by (simp add: extractCNFromDN_def js_string_defs)

text \<open>
  C4, amended: for an absent dn (\<^verbatim>\<open>undefined\<close>) the callback is called once, with the error
  \<^verbatim>\<open>No DN given\<close> and no token; for the empty string it is not called, so there is neither
  an error nor a token.
\<close>

theorem extractCNFromDN_missing_dn:
  "extractCNFromDN u JUndefined = Some [(JStr ''No DN given'', JUndefined)]
   \<and> extractCNFromDN u (JStr '''') = Some []"
  by (simp add: extractCNFromDN_def js_string_defs)

section \<open>Fixtures\<close>

lemma fixture_connects:
  "connects fixture_directory (adClient fixture_params)"
  "connects fixture_no_entries (adClient fixture_params)"
  "connects fixture_master_refused (adClient fixture_params)"
  by (simp_all add: connects_def createClients_def getUrl_def client_create_def seq_apply if_do_def
      throw_def fixture_directory_def fixture_no_entries_def fixture_master_refused_def
      fixture_params_def adClient_def)

lemma fixture_connection:
  "trace (connection fixture_directory (adClient fixture_params)) =
     [CreateClient Master (JStr ''ldap://dc1''), CreateClient User (JStr ''ldap://dc1'')]"
  "trace (connection fixture_no_entries (adClient fixture_params)) =
     [CreateClient Master (JStr ''ldap://dc1''), CreateClient User (JStr ''ldap://dc1'')]"
  "trace (connection fixture_master_refused (adClient fixture_params)) =
     [CreateClient Master (JStr ''ldap://dc1''), CreateClient User (JStr ''ldap://dc1'')]"
  by (simp_all add: connection_def createClients_def getUrl_def client_create_def seq_apply
      if_do_def throw_def fixture_directory_def fixture_no_entries_def fixture_master_refused_def
      fixture_params_def adClient_def)

section \<open>Group resolution with no entry\<close>

lemma group_onEnd_no_entries: "group_onEnd d k [] 0 = k JUndefined JUndefined"
  by (simp add: group_onEnd_def)

text \<open>
  C5, as stated (with status 0 and no group entry the result is an empty sequence of member
  descriptors), fails: the result passed to the callback is not the empty array.
\<close>

theorem getMembersOfGroupDN_no_entries_counterexample:
  "map snd (callbacks (trace (getMembersOfGroupDN fixture_no_entries report
                                 (adClient fixture_params)))) \<noteq> [JArr []]"
  by code_simp

text \<open>
  C5, amended: when the group search ends with status 0 and no entry, the callback of
  \<^verbatim>\<open>getMembersOfGroupDN\<close> is called with no arguments, so with no error and with the
  result \<^verbatim>\<open>undefined\<close>, and nothing is thrown. This call follows the search whether or not
  the master bind before it reported an error (an error is passed on first, and the search
  is made all the same).
\<close>

theorem getMembersOfGroupDN_no_entries:
  assumes "connects d self" and "\<not> masterBound self"
    and "ldap_search d Master (JStr (groupSearchDN (params self))) = SearchStream [] (StreamEnd 0)"
  shows "trace (getMembersOfGroupDN d report self) =
           trace (connection d self)
           @ [Bind Master (JStr (masterDn (params self))) (JStr (masterPw (params self)))]
           @ (if truthy (fst (ldap_bind d Master (JStr (masterDn (params self)))
                                (JStr (masterPw (params self)))))
              then [Callback (fst (ldap_bind d Master (JStr (masterDn (params self)))
                                     (JStr (masterPw (params self))))) JUndefined]
              else [])
           @ [Search Master (JStr (groupSearchDN (params self))), Callback JUndefined JUndefined]
         \<and> \<not> thrown (getMembersOfGroupDN d report self)"
  using createClients_connects [OF assms(1)] assms(2,3)
  by (simp add: getMembersOfGroupDN_report [OF assms(1,2)] group_onSearch_def
      group_onEnd_no_entries if_do_def report_def)

theorem getMembersOfGroupDN_no_entries_witness:
  "connects fixture_no_entries (adClient fixture_params)
   \<and> \<not> masterBound (adClient fixture_params)
   \<and> ldap_search fixture_no_entries Master (JStr (groupSearchDN (params (adClient fixture_params))))
       = SearchStream [] (StreamEnd 0)
   \<and> trace (getMembersOfGroupDN fixture_no_entries report (adClient fixture_params)) =
       [CreateClient Master (JStr ''ldap://dc1''), CreateClient User (JStr ''ldap://dc1''),
        Bind Master (JStr ''CN=master,OU=IT,DC=x,DC=com'') (JStr ''secret''),
        Search Master (JStr ''CN=app,OU=Groups,DC=x,DC=com''),
        Callback JUndefined JUndefined]"
proof -
  have h1: "connects fixture_no_entries (adClient fixture_params)"
    by (rule fixture_connects)
  have h2: "\<not> masterBound (adClient fixture_params)"
    by (simp add: adClient_def)
  have h3: "ldap_search fixture_no_entries Master
              (JStr (groupSearchDN (params (adClient fixture_params))))
            = SearchStream [] (StreamEnd 0)"
    by (simp add: fixture_no_entries_def)
  show ?thesis
    using h1 h2 h3 getMembersOfGroupDN_no_entries [OF h1 h2 h3]
    by (simp add: fixture_connection)
       (simp add: adClient_def fixture_params_def fixture_no_entries_def fixture_directory_def)
qed

section \<open>User authentication\<close>

lemma map_of_pick_fold:
  "map_of (fold (\<lambda>key result. if js_in object key
                                then js_set result key (js_get (JObj object) key)
                                else result) props acc) key =
     (if key \<in> set props \<and> js_in object key \<and> key \<noteq> ''__proto__''
      then Some (js_get (JObj object) key)
      else map_of acc key)"
  by (induction props arbitrary: acc) (auto simp: js_set_def update_conv')

lemma map_of_pick:
  "map_of (pick object props) key =
     (if key \<in> set props \<and> js_in object key \<and> key \<noteq> ''__proto__''
      then Some (js_get (JObj object) key)
      else None)"
  by (simp add: pick_def map_of_pick_fold)

lemma keys_pick: "fst ` set (pick object props) \<subseteq> set props"
proof -
  have "fst ` set (pick object props) = dom (map_of (pick object props))"
    by (simp add: dom_map_of_conv_image_fst)
  also have "\<dots> \<subseteq> set props"
    by (auto simp: map_of_pick split: if_splits)
  finally show ?thesis .
qed

text \<open>
  A name that the entry only inherits is picked too: \<^verbatim>\<open>toString\<close> is \<^verbatim>\<open>in\<close> every object.
\<close>

lemma pick_inherited:
  "pick fixture_user [''cn'', ''toString''] =
     [(''cn'', JStr ''jdoe''), (''toString'', JBuiltin ''toString'')]"
  by (simp add: pick_def js_in_def js_set_def object_prototype_def fixture_user_def)

lemma authUserDn_report:
  assumes "connects d self"
  shows "authUserDn d userDn password report self =
           user_onSearch d report (ldap_search d User userDn)
             (emit (Search User userDn)
                (if_do (truthy (fst (ldap_bind d User userDn password)))
                   (report (fst (ldap_bind d User userDn password)) JUndefined)
                   (emit (Bind User userDn password) (connection d self))))"
proof -
  obtain u where "userClient (connection d self) = Client u"
    using createClients_connects(4) [OF assms(1)] by (cases "userClient (connection d self)") auto
  then show ?thesis
    using createClients_connects [OF assms(1)]
    by (simp add: authUserDn_def client_bind_def client_search_def seq_apply if_do_def report_def)
qed

lemma user_onEnd_report:
  assumes "userClient self \<noteq> NoClient" and "\<not> thrown self"
  shows "user_onEnd d report resultSet 0 self =
           emit (case resultSet of
                   [] \<Rightarrow> Callback JUndefined JUndefined
                 | [entry] \<Rightarrow> Callback JNull (JObj (pick entry (userSearchAttributes (params self))))
                 | _ \<Rightarrow> Callback (JStr ''Error: unexpected number of matches'') JUndefined)
             (emit (Unbind User) self)"
proof -
  obtain u where "userClient self = Client u"
    using assms(1) by (cases "userClient self") auto
  then show ?thesis
    using assms(2)
    by (simp add: user_onEnd_def client_unbind_def seq_apply report_def split: list.splits)
qed

text \<open>
  C6, as stated (after a successful bind and a search that ends with status 0, no user
  entry is a failure), fails: with no entry the callback of \<^verbatim>\<open>authUserDn\<close> receives an
  error argument that is not truthy.
\<close>

theorem authUserDn_no_entries_counterexample:
  "\<not> list_all truthy
       (map fst (callbacks (trace (authUserDn fixture_no_entries
                                     (JStr ''CN=jdoe,OU=Users,DC=x,DC=com'') (JStr ''pw'') report
                                     (adClient fixture_params)))))"
  by code_simp

text \<open>
  C6, amended: after a successful bind and a search that ends with status 0, the user
  session is unbound and then, with no matching entry, the callback is called with no
  arguments (no error and no user object: not a failure), and with more than one entry it
  is called with the error \<^verbatim>\<open>Error: unexpected number of matches\<close> and no user object.
\<close>

theorem authUserDn_match_count:
  assumes "connects d self"
    and "\<not> truthy (fst (ldap_bind d User userDn password))"
    and "ldap_search d User userDn = SearchStream resultSet (StreamEnd 0)"
    and "length resultSet \<noteq> 1"
  shows "trace (authUserDn d userDn password report self) =
           trace (connection d self)
           @ [Bind User userDn password, Search User userDn, Unbind User,
              if resultSet = [] then Callback JUndefined JUndefined
              else Callback (JStr ''Error: unexpected number of matches'') JUndefined]
         \<and> \<not> thrown (authUserDn d userDn password report self)"
  using createClients_connects [OF assms(1)] assms(2,3,4)
  by (auto simp: authUserDn_report [OF assms(1)] user_onSearch_def user_onEnd_report if_do_def
      split: list.splits)

theorem authUserDn_match_count_witness:
  "connects fixture_no_entries (adClient fixture_params)
   \<and> \<not> truthy (fst (ldap_bind fixture_no_entries User (JStr ''CN=jdoe,OU=Users,DC=x,DC=com'')
                        (JStr ''pw'')))
   \<and> ldap_search fixture_no_entries User (JStr ''CN=jdoe,OU=Users,DC=x,DC=com'')
       = SearchStream [] (StreamEnd 0)
   \<and> length ([] :: obj list) \<noteq> 1
   \<and> trace (authUserDn fixture_no_entries (JStr ''CN=jdoe,OU=Users,DC=x,DC=com'') (JStr ''pw'')
              report (adClient fixture_params)) =
       [CreateClient Master (JStr ''ldap://dc1''), CreateClient User (JStr ''ldap://dc1''),
        Bind User (JStr ''CN=jdoe,OU=Users,DC=x,DC=com'') (JStr ''pw''),
        Search User (JStr ''CN=jdoe,OU=Users,DC=x,DC=com''),
        Unbind User,
        Callback JUndefined JUndefined]"
proof -
  have h1: "connects fixture_no_entries (adClient fixture_params)"
    by (rule fixture_connects)
  have h2: "\<not> truthy (fst (ldap_bind fixture_no_entries User
                              (JStr ''CN=jdoe,OU=Users,DC=x,DC=com'') (JStr ''pw'')))"
    by (simp add: fixture_no_entries_def fixture_directory_def)
  have h3: "ldap_search fixture_no_entries User (JStr ''CN=jdoe,OU=Users,DC=x,DC=com'')
            = SearchStream [] (StreamEnd 0)"
    by (simp add: fixture_no_entries_def)
  have h4: "length ([] :: obj list) \<noteq> 1"
    by simp
  show ?thesis
    using h1 h2 h3 authUserDn_match_count [OF h1 h2 h3 h4]
    by (simp add: fixture_connection)
qed

text \<open>
  C7: when the user search ends with status 0 and exactly one entry, the user session is
  asked to unbind, and then the callback receives no error and the object that
  \<^verbatim>\<open>_.pick\<close> makes of the entry: its keys are among \<^verbatim>\<open>userSearchAttributes\<close>, and
  under each of those keys that is \<^verbatim>\<open>in\<close> the entry (own or inherited, \<^verbatim>\<open>__proto__\<close>
  apart) it holds the value the entry has there, and nothing else.
\<close>

theorem authUserDn_single_entry:
  assumes "connects d self"
    and "ldap_search d User userDn = SearchStream [entry] (StreamEnd 0)"
  shows "trace (authUserDn d userDn password report self) =
           trace (connection d self)
           @ [Bind User userDn password]
           @ (if truthy (fst (ldap_bind d User userDn password))
              then [Callback (fst (ldap_bind d User userDn password)) JUndefined] else [])
           @ [Search User userDn, Unbind User,
              Callback JNull (JObj (pick entry (userSearchAttributes (params self))))]
         \<and> fst ` set (pick entry (userSearchAttributes (params self)))
             \<subseteq> set (userSearchAttributes (params self))
         \<and> (\<forall>key. map_of (pick entry (userSearchAttributes (params self))) key =
               (if key \<in> set (userSearchAttributes (params self)) \<and> js_in entry key
                   \<and> key \<noteq> ''__proto__''
                then Some (js_get (JObj entry) key)
                else None))"
  using createClients_connects [OF assms(1)] assms(2)
  by (simp add: authUserDn_report [OF assms(1)] user_onSearch_def user_onEnd_report if_do_def
      report_def keys_pick map_of_pick)

theorem authUserDn_single_entry_witness:
  "connects fixture_directory (adClient fixture_params)
   \<and> ldap_search fixture_directory User (JStr ''CN=jdoe,OU=Users,DC=x,DC=com'')
       = SearchStream [fixture_user] (StreamEnd 0)
   \<and> trace (authUserDn fixture_directory (JStr ''CN=jdoe,OU=Users,DC=x,DC=com'') (JStr ''pw'')
              report (adClient fixture_params)) =
       [CreateClient Master (JStr ''ldap://dc1''), CreateClient User (JStr ''ldap://dc1''),
        Bind User (JStr ''CN=jdoe,OU=Users,DC=x,DC=com'') (JStr ''pw''),
        Search User (JStr ''CN=jdoe,OU=Users,DC=x,DC=com''),
        Unbind User,
        Callback JNull (JObj [(''cn'', JStr ''jdoe''), (''mail'', JStr ''jdoe@x.com'')])]"
proof -
  have h1: "connects fixture_directory (adClient fixture_params)"
    by (rule fixture_connects)
  have h2: "ldap_search fixture_directory User (JStr ''CN=jdoe,OU=Users,DC=x,DC=com'')
            = SearchStream [fixture_user] (StreamEnd 0)"
    by (simp add: fixture_directory_def)
  have p: "pick fixture_user (userSearchAttributes (params (adClient fixture_params))) =
             [(''cn'', JStr ''jdoe''), (''mail'', JStr ''jdoe@x.com'')]"
    by (simp add: pick_def js_in_def js_set_def object_prototype_def fixture_user_def
        fixture_params_def adClient_def)
  have b: "\<not> truthy (fst (ldap_bind fixture_directory User
                             (JStr ''CN=jdoe,OU=Users,DC=x,DC=com'') (JStr ''pw'')))"
    by (simp add: fixture_directory_def)
  show ?thesis
    using h1 h2 authUserDn_single_entry [OF h1 h2, of "JStr ''pw''"]
    by (simp add: fixture_connection p b)
qed

section \<open>Orchestration when no member matches\<close>

subsection \<open>Tokens are in lower case\<close>

lemma lower_char_not_upper: "\<not> is_upper (lower_char c)"
  by (auto simp: is_upper_def lower_char_def split: option.splits if_splits)

lemma lower_char_id: "\<not> is_upper c \<Longrightarrow> lower_char c = c"
  by (auto simp: is_upper_def lower_char_def)

lemma lower_char_changes: "is_upper c \<Longrightarrow> lower_char c \<noteq> c"
  using lower_char_not_upper [of c] by auto

text \<open>On an ASCII string, lowercasing changes the string when it holds a letter A to Z.\<close>

lemma toLowerCase_ascii_changes:
  assumes "list_all is_ascii s"
  shows "toLowerCase u s \<noteq> s \<longleftrightarrow> (\<exists>c\<in>set s. is_upper c)"
proof -
  have "map lower_char s = s \<longleftrightarrow> (\<forall>c\<in>set s. \<not> is_upper c)"
    using lower_char_id lower_char_changes by (induction s) auto
  with assms show ?thesis
    by (auto simp: toLowerCase_def)
qed

lemma piece_refl: "piece t t"
  unfolding piece_def by (rule exI [of _ "[]"], rule exI [of _ "[]"]) simp















subsection \<open>The path of a user that is not found\<close>




lemma getMembersOfGroupDN_resolved:
  assumes "connects d self" and "\<not> masterBound self"
    and "\<not> truthy (fst (ldap_bind d Master (JStr (masterDn (params self)))
                           (JStr (masterPw (params self)))))"
    and "ldap_search d Master (JStr (groupSearchDN (params self)))
         = SearchStream resultSet (StreamEnd 0)"
    and "resolved_members (tables d) resultSet = Some members"
  shows "trace (getMembersOfGroupDN d report self) =
           trace (connection d self)
           @ [Bind Master (JStr (masterDn (params self))) (JStr (masterPw (params self))),
              Search Master (JStr (groupSearchDN (params self))),
              if resultSet = [] then Callback JUndefined JUndefined
              else Callback JNull (JArr members)]"
  using createClients_connects [OF assms(1)] assms(2,4,5)
  by (auto simp: getMembersOfGroupDN_bound [OF assms(1,2,3)] group_onSearch_def group_onEnd_def
      resolved_members_def report_def split: list.splits)





text \<open>
  C8 (when group resolution succeeds and no member matches, \<^verbatim>\<open>authUser\<close> closes the
  session and fails with the user-not-found error, with no bind of the user session). The
  error and the absence of a user bind are as claimed, and \<^verbatim>\<open>close\<close> is entered. But
  \<^verbatim>\<open>close\<close>, whose comment on line 94 says that it closes all connections, unbinds the
  master only when \<^verbatim>\<open>masterBound\<close> is set, and no line sets it: the master connection that
  was bound for the group search is never asked to unbind, so the session stays open.
\<close>

theorem authUser_not_found_leaves_master_bound:
  "trace (authUser fixture_directory ''nobody'' ''x'' report (adClient fixture_params)) =
     [CreateClient Master (JStr ''ldap://dc1''),
      CreateClient User (JStr ''ldap://dc1''),
      Bind Master (JStr ''CN=master,OU=IT,DC=x,DC=com'') (JStr ''secret''),
      Search Master (JStr ''CN=app,OU=Groups,DC=x,DC=com''),
      Close,
      Callback (JStr ''Error: User not found'') JUndefined]
   \<and> Unbind Master
       \<notin> set (trace (authUser fixture_directory ''nobody'' ''x'' report (adClient fixture_params)))"
  by code_simp

text \<open>
  With a member whose name starts with a capital E with acute accent, the username in
  lower case matches and the user session is bound with the DN of the member, while the
  username with the capital does not match.
\<close>

lemma authUser_non_ascii_member:
  "trace (authUser fixture_emile ([CHR 0xC3, CHR 0xA9] @ ''mile'') ''pw'' report
            (adClient fixture_params)) =
     [CreateClient Master (JStr ''ldap://dc1''),
      CreateClient User (JStr ''ldap://dc1''),
      Bind Master (JStr ''CN=master,OU=IT,DC=x,DC=com'') (JStr ''secret''),
      Search Master (JStr ''CN=app,OU=Groups,DC=x,DC=com''),
      Bind User (JStr (''CN='' @ [CHR 0xC3, CHR 0x89] @ ''mile,OU=Users,DC=x,DC=com''))
                (JStr ''pw''),
      Search User (JStr (''CN='' @ [CHR 0xC3, CHR 0x89] @ ''mile,OU=Users,DC=x,DC=com'')),
      Unbind User,
      Close,
      Callback JNull (JObj [(''cn'', JStr ''jdoe''), (''mail'', JStr ''jdoe@x.com'')])]"
  "trace (authUser fixture_emile ([CHR 0xC3, CHR 0x89] @ ''mile'') ''pw'' report
            (adClient fixture_params)) =
     [CreateClient Master (JStr ''ldap://dc1''),
      CreateClient User (JStr ''ldap://dc1''),
      Bind Master (JStr ''CN=master,OU=IT,DC=x,DC=com'') (JStr ''secret''),
      Search Master (JStr ''CN=app,OU=Groups,DC=x,DC=com''),
      Close,
      Callback (JStr ''Error: User not found'') JUndefined]"
  by code_simp+



section \<open>The bound flags\<close>





































section \<open>Close on every path\<close>

text \<open>
  C1 (on every path of \<^verbatim>\<open>authUser\<close>, \<^verbatim>\<open>close\<close> is invoked before the result or error is
  returned to the caller). Line 222 passes an error of the group resolution to the caller
  at once and does not return, so the caller receives that error before \<^verbatim>\<open>close\<close> is
  entered, and then a second call with \<^verbatim>\<open>Error: User not found\<close> after it. When the
  directory refuses the master credential and then answers the group search with an error
  event, the caller's callback is called four times, twice before the \<^verbatim>\<open>close\<close> that
  belongs to it.
\<close>

theorem authUser_reports_before_close:
  "trace (authUser fixture_master_refused ''jdoe'' ''pw'' report (adClient fixture_params)) =
     [CreateClient Master (JStr ''ldap://dc1''),
      CreateClient User (JStr ''ldap://dc1''),
      Bind Master (JStr ''CN=master,OU=IT,DC=x,DC=com'') (JStr ''secret''),
      Callback (JError ''InvalidCredentialsError'') JUndefined,
      Close,
      Callback (JStr ''Error: User not found'') JUndefined,
      Search Master (JStr ''CN=app,OU=Groups,DC=x,DC=com''),
      Callback (JError ''OperationsError'') JUndefined,
      Close,
      Callback (JStr ''Error: User not found'') JUndefined]"
  by code_simp

end
